theory Spec2Isabelle
  imports Complex_Main "HOL-Library.Sublist"
begin

section \<open>JavaScript numbers\<close>

text \<open>
  The service \<^verbatim>\<open>backend/src/services/roiCalculator.ts\<close> computes with JavaScript
  numbers. A number is modelled as an exact rational or one of the three special values
  that the arithmetic of the program can produce (a division by zero gives an infinity
  or \<open>NaN\<close>, it never throws). Two idealisations: finite arithmetic is exact (the
  rounding of IEEE doubles is not modelled) and there is one zero (no \<open>-0\<close>). Where a
  double operation rounds, the program's value differs from the exact one in its last
  digits, and a floor taken next to an integer can differ by one: the program computes
  \<^verbatim>\<open>100 * 0.29\<close> as \<^verbatim>\<open>28.999999999999996\<close>, with floor 28, where the exact product is 29.
  Concrete values are therefore stated only at inputs on which every double operation is
  exact; general statements relate a result to the operands of the program's operations,
  or state an order or a sign, which rounding keeps.
\<close>

datatype jsnum = Fin rat | NaN | PosInf | NegInf

text \<open>Unary minus.\<close>

fun js_neg :: "jsnum \<Rightarrow> jsnum" where
  "js_neg (Fin a) = Fin (- a)"
| "js_neg NaN = NaN"
| "js_neg PosInf = NegInf"
| "js_neg NegInf = PosInf"

text \<open>The operator \<^verbatim>\<open>+\<close> on two numbers.\<close>

fun js_add :: "jsnum \<Rightarrow> jsnum \<Rightarrow> jsnum" where
  "js_add (Fin a) (Fin b) = Fin (a + b)"
| "js_add NaN _ = NaN"
| "js_add _ NaN = NaN"
| "js_add PosInf NegInf = NaN"
| "js_add NegInf PosInf = NaN"
| "js_add PosInf _ = PosInf"
| "js_add _ PosInf = PosInf"
| "js_add NegInf _ = NegInf"
| "js_add _ NegInf = NegInf"

text \<open>The operator \<^verbatim>\<open>-\<close> on two numbers.\<close>

definition js_sub :: "jsnum \<Rightarrow> jsnum \<Rightarrow> jsnum" where
  "js_sub a b = js_add a (js_neg b)"

text \<open>The operator \<^verbatim>\<open>*\<close>: an infinity times zero is \<open>NaN\<close>.\<close>

fun js_mul :: "jsnum \<Rightarrow> jsnum \<Rightarrow> jsnum" where
  "js_mul (Fin a) (Fin b) = Fin (a * b)"
| "js_mul NaN _ = NaN"
| "js_mul _ NaN = NaN"
| "js_mul (Fin a) PosInf = (if a = 0 then NaN else if 0 < a then PosInf else NegInf)"
| "js_mul (Fin a) NegInf = (if a = 0 then NaN else if 0 < a then NegInf else PosInf)"
| "js_mul PosInf (Fin b) = (if b = 0 then NaN else if 0 < b then PosInf else NegInf)"
| "js_mul NegInf (Fin b) = (if b = 0 then NaN else if 0 < b then NegInf else PosInf)"
| "js_mul PosInf PosInf = PosInf"
| "js_mul PosInf NegInf = NegInf"
| "js_mul NegInf PosInf = NegInf"
| "js_mul NegInf NegInf = PosInf"

text \<open>
  The operator \<^verbatim>\<open>/\<close>. A finite number divided by zero is an infinity of its sign,
  zero divided by zero is \<open>NaN\<close>; nothing is thrown.
\<close>

fun js_div :: "jsnum \<Rightarrow> jsnum \<Rightarrow> jsnum" where
  "js_div (Fin a) (Fin b) =
     (if b = 0 then (if a = 0 then NaN else if 0 < a then PosInf else NegInf)
      else Fin (a / b))"
| "js_div NaN _ = NaN"
| "js_div _ NaN = NaN"
| "js_div (Fin a) PosInf = Fin 0"
| "js_div (Fin a) NegInf = Fin 0"
| "js_div PosInf (Fin b) = (if 0 \<le> b then PosInf else NegInf)"
| "js_div NegInf (Fin b) = (if 0 \<le> b then NegInf else PosInf)"
| "js_div PosInf PosInf = NaN"
| "js_div PosInf NegInf = NaN"
| "js_div NegInf PosInf = NaN"
| "js_div NegInf NegInf = NaN"

text \<open>\<^verbatim>\<open>Math.floor\<close>.\<close>

fun js_floor :: "jsnum \<Rightarrow> jsnum" where
  "js_floor (Fin a) = Fin (of_int \<lfloor>a\<rfloor>)"
| "js_floor NaN = NaN"
| "js_floor PosInf = PosInf"
| "js_floor NegInf = NegInf"

text \<open>\<^verbatim>\<open>Math.max\<close> of two arguments: \<open>NaN\<close> as soon as one of them is.\<close>

fun js_max :: "jsnum \<Rightarrow> jsnum \<Rightarrow> jsnum" where
  "js_max (Fin a) (Fin b) = Fin (max a b)"
| "js_max NaN _ = NaN"
| "js_max _ NaN = NaN"
| "js_max PosInf _ = PosInf"
| "js_max _ PosInf = PosInf"
| "js_max NegInf b = b"
| "js_max a NegInf = a"

text \<open>The comparison \<^verbatim>\<open>>\<close>: false as soon as one side is \<open>NaN\<close>.\<close>

fun js_gt :: "jsnum \<Rightarrow> jsnum \<Rightarrow> bool" where
  "js_gt (Fin a) (Fin b) = (b < a)"
| "js_gt NaN _ = False"
| "js_gt _ NaN = False"
| "js_gt PosInf PosInf = False"
| "js_gt PosInf _ = True"
| "js_gt _ PosInf = False"
| "js_gt NegInf _ = False"
| "js_gt _ NegInf = True"

text \<open>The comparison \<^verbatim>\<open>>=\<close>, used to state bounds on results.\<close>

fun js_ge :: "jsnum \<Rightarrow> jsnum \<Rightarrow> bool" where
  "js_ge (Fin a) (Fin b) = (b \<le> a)"
| "js_ge NaN _ = False"
| "js_ge _ NaN = False"
| "js_ge PosInf _ = True"
| "js_ge NegInf NegInf = True"
| "js_ge NegInf _ = False"
| "js_ge _ NegInf = True"
| "js_ge _ PosInf = False"

text \<open>Truthiness of a number: \<open>0\<close> and \<open>NaN\<close> are falsy.\<close>

fun truthy :: "jsnum \<Rightarrow> bool" where
  "truthy (Fin a) = (a \<noteq> 0)"
| "truthy NaN = False"
| "truthy PosInf = True"
| "truthy NegInf = True"

text \<open>\<^verbatim>\<open>a || b\<close> on numbers.\<close>

definition js_or :: "jsnum \<Rightarrow> jsnum \<Rightarrow> jsnum" where
  "js_or a b = (if truthy a then a else b)"

section \<open>Values delivered by the database driver\<close>

text \<open>
  A field of a result row is SQL \<open>NULL\<close> (also standing for a field that is absent:
  both are falsy), a JavaScript number (the driver's rendering of \<open>INTEGER\<close> and
  floating columns), or a non-empty numeric text (the driver's rendering of
  \<open>BIGINT\<close> and \<open>NUMERIC\<close>, the types of \<open>COUNT\<close>, \<open>SUM\<close> and of \<open>AVG\<close> over an
  \<open>INTEGER\<close> column of the repository's database schema). The text is represented by
  the number it spells. Database values are finite.
\<close>

datatype pgval = Null | Number rat | NumericText rat

text \<open>Truthiness: a non-empty string is truthy whatever it spells, also \<open>"0"\<close>.\<close>

fun pg_truthy :: "pgval \<Rightarrow> bool" where
  "pg_truthy Null = False"
| "pg_truthy (Number a) = (a \<noteq> 0)"
| "pg_truthy (NumericText a) = True"

text \<open>\<^verbatim>\<open>v || 'd'\<close> with a string literal spelling \<open>d\<close> on the right.\<close>

definition or_text :: "pgval \<Rightarrow> rat \<Rightarrow> pgval" where
  "or_text v d = (if pg_truthy v then v else NumericText d)"

text \<open>Conversion to a number, as the operator \<^verbatim>\<open>-\<close> applies it to an operand.\<close>

fun to_number :: "pgval \<Rightarrow> jsnum" where
  "to_number Null = Fin 0"
| "to_number (Number a) = Fin a"
| "to_number (NumericText a) = Fin a"

text \<open>\<^verbatim>\<open>parseFloat\<close>: the number a text spells; a number is converted to text first.\<close>

fun parseFloat :: "pgval \<Rightarrow> jsnum" where
  "parseFloat Null = NaN"
| "parseFloat (Number a) = Fin a"
| "parseFloat (NumericText a) = Fin a"

text \<open>
  \<^verbatim>\<open>parseInt\<close>: the integer part of the decimal text, that is truncation towards zero.
  Not modelled: the exponent notation that the text of a number takes from \<open>10^21\<close> on or
  below \<open>10^-6\<close> (\<^verbatim>\<open>parseInt(1e21)\<close> is 1), and the rounding of integers above \<open>2^53\<close>.
  The fields parsed here are counts of rows, delivered as plain integer texts.
\<close>

definition trunc :: "rat \<Rightarrow> rat" where
  "trunc a = (if 0 \<le> a then of_int \<lfloor>a\<rfloor> else of_int \<lceil>a\<rceil>)"

fun parseInt :: "pgval \<Rightarrow> jsnum" where
  "parseInt Null = NaN"
| "parseInt (Number a) = Fin (trunc a)"
| "parseInt (NumericText a) = Fin (trunc a)"

text \<open>\<^verbatim>\<open>rows[0]?.f\<close>: the field of the first row, undefined when there is no row.\<close>

fun first_field :: "'row list \<Rightarrow> ('row \<Rightarrow> pgval) \<Rightarrow> pgval" where
  "first_field [] f = Null"
| "first_field (r # rs) f = f r"

section \<open>The data of the ROI calculation\<close>

text \<open>The rows of the three aggregate queries and of the sample query.\<close>

record conflict_row =
  total_conflicts :: pgval
  avg_resolution_minutes :: pgval
  resolution_rate :: pgval

record prediction_row =
  total_predictions :: pgval
  accuracy_rate :: pgval
  prevented_failures :: pgval

record engineering_row =
  avg_cycle_time :: pgval
  avg_lead_time :: pgval
  avg_deploy_freq :: pgval

text \<open>
  A row of \<^verbatim>\<open>engineering_metrics\<close>, with the three columns that are read. They are
  \<open>INTEGER\<close> columns: the driver delivers a number, or \<open>null\<close> (\<open>None\<close>).
\<close>

record metrics_row =
  row_code_review_time :: "rat option"
  row_cycle_time :: "rat option"
  row_pr_merge_time :: "rat option"

text \<open>
  The connection pool, as the calculator sees it: each query either fails with an error
  of the pool (\<open>Inl\<close>) or returns rows. \<open>windowStart\<close> is the date that lines 39-40 of
  \<^verbatim>\<open>calculateROI\<close> compute from the clock and \<open>timeframeDays\<close>; dates are opaque.
\<close>

record ('e, 'd) pool =
  windowStart :: "jsnum \<Rightarrow> 'd"
  conflictQuery :: "int \<Rightarrow> 'd \<Rightarrow> 'e + conflict_row list"
  predictionQuery :: "int \<Rightarrow> 'd \<Rightarrow> 'e + prediction_row list"
  engineeringQuery :: "int \<Rightarrow> 'd \<Rightarrow> 'e + engineering_row list"
  metricsQuery :: "int \<Rightarrow> 'e + metrics_row list"

record conflict_metrics =
  totalConflicts :: jsnum
  avgResolutionMinutes :: jsnum
  resolutionRate :: jsnum

record prediction_metrics =
  totalPredictions :: jsnum
  accuracyRate :: jsnum
  preventedFailures :: jsnum

text \<open>The interface \<^verbatim>\<open>ROIMetrics\<close>.\<close>

record roimetrics =
  totalConflictsAvoided :: jsnum
  avgConflictResolutionTime :: jsnum
  timesSaved :: jsnum
  costSavings :: jsnum
  developerHourlyCost :: jsnum
  preventedBuildFailures :: jsnum
  cicdTimeSaved :: jsnum
  totalROI :: jsnum
  projectedAnnualSavings :: jsnum

definition DEFAULT_HOURLY_COST :: jsnum where
  "DEFAULT_HOURLY_COST = Fin 75"

section \<open>The three fetches\<close>

definition getConflictMetrics ::
  "('e, 'd) pool \<Rightarrow> int \<Rightarrow> 'd \<Rightarrow> 'e + conflict_metrics" where
  "getConflictMetrics p repositoryId startDate =
     (case conflictQuery p repositoryId startDate of
        Inl err \<Rightarrow> Inl err
      | Inr rows \<Rightarrow> Inr
          \<lparr> totalConflicts = parseInt (or_text (first_field rows total_conflicts) 0),
            avgResolutionMinutes =
              parseFloat (or_text (first_field rows avg_resolution_minutes) 45),
            resolutionRate =
              parseFloat (or_text (first_field rows resolution_rate) (85 / 100)) \<rparr>)"

definition getPredictionMetrics ::
  "('e, 'd) pool \<Rightarrow> int \<Rightarrow> 'd \<Rightarrow> 'e + prediction_metrics" where
  "getPredictionMetrics p repositoryId startDate =
     (case predictionQuery p repositoryId startDate of
        Inl err \<Rightarrow> Inl err
      | Inr rows \<Rightarrow> Inr
          \<lparr> totalPredictions = parseInt (or_text (first_field rows total_predictions) 0),
            accuracyRate = parseFloat (or_text (first_field rows accuracy_rate) (78 / 100)),
            preventedFailures =
              parseInt (or_text (first_field rows prevented_failures) 0) \<rparr>)"

text \<open>\<^verbatim>\<open>result.rows[0] || {}\<close>: the first row as it is, or an object with no field.\<close>

definition getEngineeringMetrics ::
  "('e, 'd) pool \<Rightarrow> int \<Rightarrow> 'd \<Rightarrow> 'e + engineering_row" where
  "getEngineeringMetrics p repositoryId startDate =
     (case engineeringQuery p repositoryId startDate of
        Inl err \<Rightarrow> Inl err
      | Inr [] \<Rightarrow> Inr \<lparr> avg_cycle_time = Null, avg_lead_time = Null, avg_deploy_freq = Null \<rparr>
      | Inr (r # rs) \<Rightarrow> Inr r)"

section \<open>The ROI calculation\<close>

text \<open>
  \<^verbatim>\<open>engineeringData.avg_cycle_time || baselineCycleTime\<close> keeps a truthy field as the
  driver delivered it; the subtraction then converts it to a number.
\<close>

definition calculateCICDSavings :: "engineering_row \<Rightarrow> jsnum" where
  "calculateCICDSavings engineeringData =
     (let baselineCycleTime = Fin 24;
          actualCycleTime =
            (if pg_truthy (avg_cycle_time engineeringData)
             then to_number (avg_cycle_time engineeringData)
             else baselineCycleTime);
          improvement = js_max (Fin 0) (js_sub baselineCycleTime actualCycleTime)
      in js_mul improvement (Fin 4))"

text \<open>Lines 51-77 of \<^verbatim>\<open>calculateROI\<close>: the report computed from the three fetched summaries.\<close>

definition roiFromSummaries ::
  "conflict_metrics \<Rightarrow> prediction_metrics \<Rightarrow> engineering_row \<Rightarrow> jsnum \<Rightarrow> roimetrics" where
  "roiFromSummaries conflictData predictionData engineeringData timeframeDays =
     (let conflictsAvoided =
            js_floor (js_mul (totalPredictions predictionData) (accuracyRate predictionData));
          avgResolutionTime = js_or (avgResolutionMinutes conflictData) (Fin 45);
          timesSavedHours = js_div (js_mul conflictsAvoided avgResolutionTime) (Fin 60);
          hourlyCost = DEFAULT_HOURLY_COST;
          costSavings' = js_mul timesSavedHours hourlyCost;
          cicdTimeSaved' = calculateCICDSavings engineeringData;
          cicdCostSavings = js_mul cicdTimeSaved' (js_div hourlyCost (Fin 2));
          totalCostSavings = js_add costSavings' cicdCostSavings;
          projectedAnnualSavings' =
            js_mul (js_div totalCostSavings timeframeDays) (Fin 365)
      in \<lparr> totalConflictsAvoided = conflictsAvoided,
           avgConflictResolutionTime = avgResolutionTime,
           timesSaved = timesSavedHours,
           costSavings = costSavings',
           developerHourlyCost = hourlyCost,
           preventedBuildFailures = js_or (preventedFailures predictionData) (Fin 0),
           cicdTimeSaved = cicdTimeSaved',
           totalROI = totalCostSavings,
           projectedAnnualSavings = projectedAnnualSavings' \<rparr>)"

text \<open>
  \<^verbatim>\<open>calculateROI\<close>: the three fetches in the order of the source, each awaited before
  the next; a rejected fetch is caught, logged and thrown again as it is. There is no
  check of \<open>timeframeDays\<close> or \<open>repositoryId\<close> in the function. A caller that
  omits \<open>timeframeDays\<close> passes the default, \<open>Fin 30\<close>.
\<close>

definition calculateROI :: "('e, 'd) pool \<Rightarrow> int \<Rightarrow> jsnum \<Rightarrow> 'e + roimetrics" where
  "calculateROI p repositoryId timeframeDays =
     (let startDate = windowStart p timeframeDays in
      case getConflictMetrics p repositoryId startDate of
        Inl err \<Rightarrow> Inl err
      | Inr conflictData \<Rightarrow>
          (case getPredictionMetrics p repositoryId startDate of
             Inl err \<Rightarrow> Inl err
           | Inr predictionData \<Rightarrow>
               (case getEngineeringMetrics p repositoryId startDate of
                  Inl err \<Rightarrow> Inl err
                | Inr engineeringData \<Rightarrow>
                    Inr (roiFromSummaries conflictData predictionData engineeringData
                           timeframeDays))))"

section \<open>Bottleneck detection\<close>

datatype bottleneck_type = long_pr_review | merge_conflicts | slow_ci | delayed_deployments

datatype impact_level = high | medium | low

text \<open>
  The interface \<^verbatim>\<open>EngineeringBottleneck\<close>, without its \<^verbatim>\<open>description\<close>: that text
  renders a number with \<^verbatim>\<open>toFixed\<close> and nothing reads it.
\<close>

record bottleneck =
  type :: bottleneck_type
  impact :: impact_level
  estimatedCost :: jsnum
  recommendation :: string

text \<open>
  The accumulator of the \<^verbatim>\<open>reduce\<close> in \<^verbatim>\<open>calculateAverageMetrics\<close>. It starts as the
  empty object, whose fields are undefined (\<open>None\<close>).
\<close>

record metric_sums =
  sum_code_review_time :: "jsnum option"
  sum_cycle_time :: "jsnum option"
  sum_pr_merge_time :: "jsnum option"

text \<open>\<^verbatim>\<open>acc.f || 0\<close> and \<^verbatim>\<open>row.f || 0\<close>.\<close>

fun acc_or0 :: "jsnum option \<Rightarrow> jsnum" where
  "acc_or0 None = Fin 0"
| "acc_or0 (Some a) = js_or a (Fin 0)"

fun row_or0 :: "rat option \<Rightarrow> jsnum" where
  "row_or0 None = Fin 0"
| "row_or0 (Some a) = js_or (Fin a) (Fin 0)"

definition reduce_step :: "metric_sums \<Rightarrow> metrics_row \<Rightarrow> metric_sums" where
  "reduce_step acc row =
     \<lparr> sum_code_review_time =
         Some (js_add (acc_or0 (sum_code_review_time acc)) (row_or0 (row_code_review_time row))),
       sum_cycle_time =
         Some (js_add (acc_or0 (sum_cycle_time acc)) (row_or0 (row_cycle_time row))),
       sum_pr_merge_time =
         Some (js_add (acc_or0 (sum_pr_merge_time acc)) (row_or0 (row_pr_merge_time row))) \<rparr>"

text \<open>A field of the accumulator as an operand of \<^verbatim>\<open>/\<close>: undefined converts to \<open>NaN\<close>.\<close>

fun sum_number :: "jsnum option \<Rightarrow> jsnum" where
  "sum_number None = NaN"
| "sum_number (Some a) = a"

record average_metrics =
  code_review_time :: jsnum
  cycle_time :: jsnum
  pr_merge_time :: jsnum
  prsPerWeek :: jsnum
  conflictRate :: jsnum
  avgConflictResolution :: jsnum

text \<open>
  \<^verbatim>\<open>calculateAverageMetrics\<close>: \<^verbatim>\<open>rows.reduce(f, {})\<close> is a left fold; the three rates
  are the constants of the source.
\<close>

definition calculateAverageMetrics :: "metrics_row list \<Rightarrow> average_metrics" where
  "calculateAverageMetrics rows =
     (let sum = foldl reduce_step
                  \<lparr> sum_code_review_time = None, sum_cycle_time = None,
                    sum_pr_merge_time = None \<rparr> rows;
          len = Fin (of_nat (length rows))
      in \<lparr> code_review_time = js_div (sum_number (sum_code_review_time sum)) len,
           cycle_time = js_div (sum_number (sum_cycle_time sum)) len,
           pr_merge_time = js_div (sum_number (sum_pr_merge_time sum)) len,
           prsPerWeek = Fin 20,
           conflictRate = Fin (12 / 100),
           avgConflictResolution = Fin 45 \<rparr>)"

text \<open>
  Lines 109-142 of \<^verbatim>\<open>identifyBottlenecks\<close>: the three checks, each pushing at most one
  finding onto the array, in the order of the source.
\<close>

definition checkBottlenecks :: "average_metrics \<Rightarrow> bottleneck list" where
  "checkBottlenecks avgMetrics =
     (let bottlenecks0 = [];
          bottlenecks1 =
            (if js_gt (code_review_time avgMetrics) (Fin 240)
             then bottlenecks0 @
               [\<lparr> type = long_pr_review,
                  impact = (if js_gt (code_review_time avgMetrics) (Fin 480)
                            then high else medium),
                  estimatedCost =
                    js_mul (js_mul (js_sub (js_div (code_review_time avgMetrics) (Fin 60))
                                      (Fin 2))
                              DEFAULT_HOURLY_COST)
                      (prsPerWeek avgMetrics),
                  recommendation =
                    ''Implement automated code review tools and set review SLAs'' \<rparr>]
             else bottlenecks0);
          bottlenecks2 =
            (if js_gt (conflictRate avgMetrics) (Fin (15 / 100))
             then bottlenecks1 @
               [\<lparr> type = merge_conflicts,
                  impact = (if js_gt (conflictRate avgMetrics) (Fin (25 / 100))
                            then high else medium),
                  estimatedCost =
                    js_mul (js_mul (js_mul (conflictRate avgMetrics) (prsPerWeek avgMetrics))
                              (js_div (avgConflictResolution avgMetrics) (Fin 60)))
                      DEFAULT_HOURLY_COST,
                  recommendation =
                    ''Use GitFlow AI predictions to identify conflicts early and reduce branch lifetimes'' \<rparr>]
             else bottlenecks1);
          bottlenecks3 =
            (if js_gt (cycle_time avgMetrics) (Fin 48)
             then bottlenecks2 @
               [\<lparr> type = slow_ci,
                  impact = high,
                  estimatedCost =
                    js_mul (js_mul (js_div (js_sub (cycle_time avgMetrics) (Fin 24)) (Fin 24))
                              DEFAULT_HOURLY_COST)
                      (prsPerWeek avgMetrics),
                  recommendation =
                    ''Optimize CI/CD pipeline and implement parallel testing'' \<rparr>]
             else bottlenecks2)
      in bottlenecks3)"

text \<open>
  \<^verbatim>\<open>identifyBottlenecks\<close>: a rejected query is caught, logged and thrown again as it
  is; with no row the empty array is returned before anything is computed.
\<close>

definition identifyBottlenecks :: "('e, 'd) pool \<Rightarrow> int \<Rightarrow> 'e + bottleneck list" where
  "identifyBottlenecks p repositoryId =
     (case metricsQuery p repositoryId of
        Inl err \<Rightarrow> Inl err
      | Inr rows \<Rightarrow>
          if length rows = 0 then Inr []
          else Inr (checkBottlenecks (calculateAverageMetrics rows)))"

subsection \<open>The divisions a call evaluates\<close>

text \<open>
  A division by zero does not show in a result (it gives \<open>NaN\<close>, and no comparison with
  \<open>NaN\<close> holds). To speak of the divisions a call performs, the following functions list
  the right operands of the \<^verbatim>\<open>/\<close> operations evaluated, in program order, along the
  same control flow: three divisions by \<^verbatim>\<open>rows.length\<close> in
  \<^verbatim>\<open>calculateAverageMetrics\<close>; in the checks, the cost and the description of a slow
  review each divide by 60, the cost of conflicts divides by 60, the cost of a slow
  cycle by 24.
\<close>

definition calculateAverageMetrics_divisors :: "metrics_row list \<Rightarrow> jsnum list" where
  "calculateAverageMetrics_divisors rows =
     (let len = Fin (of_nat (length rows)) in [len, len, len])"

definition checkBottlenecks_divisors :: "average_metrics \<Rightarrow> jsnum list" where
  "checkBottlenecks_divisors avgMetrics =
     (if js_gt (code_review_time avgMetrics) (Fin 240) then [Fin 60, Fin 60] else []) @
     (if js_gt (conflictRate avgMetrics) (Fin (15 / 100)) then [Fin 60] else []) @
     (if js_gt (cycle_time avgMetrics) (Fin 48) then [Fin 24] else [])"

definition identifyBottlenecks_divisors :: "('e, 'd) pool \<Rightarrow> int \<Rightarrow> jsnum list" where
  "identifyBottlenecks_divisors p repositoryId =
     (case metricsQuery p repositoryId of
        Inl err \<Rightarrow> []
      | Inr rows \<Rightarrow>
          if length rows = 0 then []
          else calculateAverageMetrics_divisors rows @
               checkBottlenecks_divisors (calculateAverageMetrics rows))"

section \<open>Concrete sources\<close>

text \<open>
  Pools for the scenarios: errors are strings, dates carry no information. The aggregate
  rows are given as the driver delivers them, as numeric texts.
\<close>

definition source_of ::
  "(string + conflict_row list) \<Rightarrow> (string + prediction_row list) \<Rightarrow>
   (string + engineering_row list) \<Rightarrow> (string + metrics_row list) \<Rightarrow> (string, unit) pool" where
  "source_of c pr en ms =
     \<lparr> windowStart = (\<lambda>timeframeDays. ()),
       conflictQuery = (\<lambda>repositoryId startDate. c),
       predictionQuery = (\<lambda>repositoryId startDate. pr),
       engineeringQuery = (\<lambda>repositoryId startDate. en),
       metricsQuery = (\<lambda>repositoryId. ms) \<rparr>"

definition conflicts_row :: "pgval \<Rightarrow> conflict_row" where
  "conflicts_row avg =
     \<lparr> total_conflicts = NumericText 12, avg_resolution_minutes = avg,
       resolution_rate = NumericText (85 / 100) \<rparr>"

definition predictions_row :: "rat \<Rightarrow> pgval \<Rightarrow> prediction_row" where
  "predictions_row count accuracy =
     \<lparr> total_predictions = NumericText count, accuracy_rate = accuracy,
       prevented_failures = (if count = 0 then Null else NumericText 0) \<rparr>"

definition engineering_avg_row :: "pgval \<Rightarrow> engineering_row" where
  "engineering_avg_row cycle =
     \<lparr> avg_cycle_time = cycle, avg_lead_time = Null, avg_deploy_freq = Null \<rparr>"

definition sample_row :: "rat \<Rightarrow> rat \<Rightarrow> metrics_row" where
  "sample_row review cycle =
     \<lparr> row_code_review_time = Some review, row_cycle_time = Some cycle,
       row_pr_merge_time = None \<rparr>"

text \<open>
  A source whose three aggregate queries succeed with one row each: the average
  resolution time, the number of predictions with their accuracy, the average cycle time.
\<close>

definition roi_source :: "pgval \<Rightarrow> rat \<Rightarrow> pgval \<Rightarrow> pgval \<Rightarrow> (string, unit) pool" where
  "roi_source resolution count accuracy cycle =
     source_of (Inr [conflicts_row resolution]) (Inr [predictions_row count accuracy])
       (Inr [engineering_avg_row cycle]) (Inr [])"

text \<open>Scenario A: 100 predictions at accuracy 0.8, resolution 45 minutes, cycle time 24 hours.\<close>

definition scenarioA :: "(string, unit) pool" where
  "scenarioA = roi_source (NumericText 45) 100 (NumericText (8 / 10)) (NumericText 24)"

text \<open>A source whose first query is rejected.\<close>

definition unavailable :: "(string, unit) pool" where
  "unavailable = source_of (Inl ''connection refused'') (Inr []) (Inr []) (Inr [])"

text \<open>A source with one sample of the given review and cycle times.\<close>

definition one_sample :: "rat \<Rightarrow> rat \<Rightarrow> (string, unit) pool" where
  "one_sample review cycle =
     source_of (Inr []) (Inr []) (Inr []) (Inr [sample_row review cycle])"

text \<open>Scenario D: thirty samples, each with a review time of 500 minutes and a cycle time of 60 hours.\<close>

definition scenarioD :: "(string, unit) pool" where
  "scenarioD =
     source_of (Inr []) (Inr []) (Inr []) (Inr (replicate 30 (sample_row 500 60)))"

section \<open>Auxiliary facts about the ROI calculation\<close>

lemmas pool_defs = roi_source_def source_of_def conflicts_row_def predictions_row_def
  engineering_avg_row_def

lemmas roi_defs = calculateROI_def getConflictMetrics_def
        getPredictionMetrics_def getEngineeringMetrics_def roiFromSummaries_def
        calculateCICDSavings_def DEFAULT_HOURLY_COST_def or_text_def js_or_def js_sub_def Let_def

lemma trunc_numeral: "trunc (numeral n) = numeral n"
  by (simp add: trunc_def)

lemma trunc_zero: "trunc 0 = 0"
  by (simp add: trunc_def)

lemma getConflictMetrics_Inl:
  "getConflictMetrics p rid d = Inl e \<longleftrightarrow> conflictQuery p rid d = Inl e"
  by (simp add: getConflictMetrics_def split: sum.splits)

lemma getPredictionMetrics_Inl:
  "getPredictionMetrics p rid d = Inl e \<longleftrightarrow> predictionQuery p rid d = Inl e"
  by (simp add: getPredictionMetrics_def split: sum.splits)

lemma getEngineeringMetrics_Inl:
  "getEngineeringMetrics p rid d = Inl e \<longleftrightarrow> engineeringQuery p rid d = Inl e"
  by (simp add: getEngineeringMetrics_def split: sum.splits list.splits)

lemma getConflictMetrics_isl: "isl (getConflictMetrics p rid d) = isl (conflictQuery p rid d)"
  by (simp add: getConflictMetrics_def split: sum.splits)

lemma getPredictionMetrics_isl: "isl (getPredictionMetrics p rid d) = isl (predictionQuery p rid d)"
  by (simp add: getPredictionMetrics_def split: sum.splits)

lemma calculateROI_Inl:
  "calculateROI p rid tf = Inl e \<longleftrightarrow>
     getConflictMetrics p rid (windowStart p tf) = Inl e \<or>
     (\<not> isl (getConflictMetrics p rid (windowStart p tf)) \<and>
        getPredictionMetrics p rid (windowStart p tf) = Inl e) \<or>
     (\<not> isl (getConflictMetrics p rid (windowStart p tf)) \<and>
      \<not> isl (getPredictionMetrics p rid (windowStart p tf)) \<and>
        getEngineeringMetrics p rid (windowStart p tf) = Inl e)"
  by (auto simp add: calculateROI_def Let_def split: sum.splits)

lemma calculateROI_Inr:
  "calculateROI p rid tf = Inr r \<longleftrightarrow>
     (\<exists>cd pd ed. getConflictMetrics p rid (windowStart p tf) = Inr cd \<and>
        getPredictionMetrics p rid (windowStart p tf) = Inr pd \<and>
        getEngineeringMetrics p rid (windowStart p tf) = Inr ed \<and>
        r = roiFromSummaries cd pd ed tf)"
  by (auto simp add: calculateROI_def Let_def split: sum.splits)

lemma source_of_simps:
  "windowStart (source_of c pr en ms) tf = ()"
  "conflictQuery (source_of c pr en ms) rid d = c"
  "predictionQuery (source_of c pr en ms) rid d = pr"
  "engineeringQuery (source_of c pr en ms) rid d = en"
  "metricsQuery (source_of c pr en ms) rid = ms"
  by (simp_all add: source_of_def)

lemma calculateROI_roi_source:
  "\<exists>r. calculateROI (roi_source resolution n accuracy cycle) rid tf = Inr r"
  by (simp add: calculateROI_def getConflictMetrics_def getPredictionMetrics_def
      getEngineeringMetrics_def roi_source_def source_of_simps Let_def)

lemma getEngineeringMetrics_Inr:
  "engineeringQuery p rid d = Inr rows \<Longrightarrow>
   \<exists>ed. getEngineeringMetrics p rid d = Inr ed \<and>
        avg_cycle_time ed = first_field rows avg_cycle_time"
  by (cases rows) (simp_all add: getEngineeringMetrics_def)

lemma calculateROI_cicdTimeSaved:
  assumes "calculateROI p rid tf = Inr r"
    and "engineeringQuery p rid (windowStart p tf) = Inr rows"
  shows "\<exists>ed. avg_cycle_time ed = first_field rows avg_cycle_time \<and>
              cicdTimeSaved r = calculateCICDSavings ed"
proof -
  obtain ed where ed: "getEngineeringMetrics p rid (windowStart p tf) = Inr ed"
      "avg_cycle_time ed = first_field rows avg_cycle_time"
    using getEngineeringMetrics_Inr [OF assms(2)] by blast
  obtain cd pd where "r = roiFromSummaries cd pd ed tf"
    using assms(1) ed(1) by (auto simp add: calculateROI_Inr)
  then have "cicdTimeSaved r = calculateCICDSavings ed"
    by (simp add: roiFromSummaries_def Let_def)
  with ed(2) show ?thesis by blast
qed

lemma calculateCICDSavings_text:
  "avg_cycle_time ed = NumericText a \<Longrightarrow>
   calculateCICDSavings ed = Fin (max 0 (24 - a) * 4)"
  by (simp add: calculateCICDSavings_def js_sub_def Let_def)

lemma calculateCICDSavings_number:
  "avg_cycle_time ed = Number a \<Longrightarrow>
   calculateCICDSavings ed = (if a = 0 then Fin 0 else Fin (max 0 (24 - a) * 4))"
  by (simp add: calculateCICDSavings_def js_sub_def Let_def)

lemma calculateCICDSavings_null:
  "avg_cycle_time ed = Null \<Longrightarrow> calculateCICDSavings ed = Fin 0"
  by (simp add: calculateCICDSavings_def js_sub_def Let_def)

lemma getConflictMetrics_Inr:
  "conflictQuery p rid d = Inr rows \<Longrightarrow>
   \<exists>cd. getConflictMetrics p rid d = Inr cd \<and>
        avgResolutionMinutes cd =
          parseFloat (or_text (first_field rows avg_resolution_minutes) 45)"
  by (simp add: getConflictMetrics_def)

lemma parseFloat_or_text:
  "parseFloat (or_text v d) =
     (case v of Null \<Rightarrow> Fin d | Number a \<Rightarrow> (if a = 0 then Fin d else Fin a)
      | NumericText a \<Rightarrow> Fin a)"
  by (cases v) (simp_all add: or_text_def)

lemma parseFloat_or_text_finite: "\<exists>a. parseFloat (or_text v d) = Fin a"
  by (cases v) (simp_all add: or_text_def)

lemma calculateROI_resolution:
  assumes "calculateROI p rid tf = Inr r"
    and "conflictQuery p rid (windowStart p tf) = Inr rows"
  shows "avgConflictResolutionTime r =
           js_or (parseFloat (or_text (first_field rows avg_resolution_minutes) 45)) (Fin 45) \<and>
         timesSaved r =
           js_div (js_mul (totalConflictsAvoided r) (avgConflictResolutionTime r)) (Fin 60)"
proof -
  obtain cd where cd: "getConflictMetrics p rid (windowStart p tf) = Inr cd"
      "avgResolutionMinutes cd =
         parseFloat (or_text (first_field rows avg_resolution_minutes) 45)"
    using getConflictMetrics_Inr [OF assms(2)] by blast
  obtain pd ed where "r = roiFromSummaries cd pd ed tf"
    using assms(1) cd(1) by (auto simp add: calculateROI_Inr)
  then show ?thesis
    using cd(2) by (simp add: roiFromSummaries_def Let_def)
qed

lemma getConflictMetrics_finite:
  assumes "getConflictMetrics p rid d = Inr cd"
  shows "\<exists>a. avgResolutionMinutes cd = Fin a"
proof (cases "conflictQuery p rid d")
  case (Inl e)
  with assms show ?thesis by (simp add: getConflictMetrics_def)
next
  case (Inr rows)
  with assms have "avgResolutionMinutes cd =
      parseFloat (or_text (first_field rows avg_resolution_minutes) 45)"
    by (auto simp add: getConflictMetrics_def)
  then show ?thesis
    using parseFloat_or_text_finite by simp
qed

lemma getPredictionMetrics_finite:
  assumes "getPredictionMetrics p rid d = Inr pd"
  shows "\<exists>a. accuracyRate pd = Fin a"
proof (cases "predictionQuery p rid d")
  case (Inl e)
  with assms show ?thesis by (simp add: getPredictionMetrics_def)
next
  case (Inr rows)
  with assms have "accuracyRate pd =
      parseFloat (or_text (first_field rows accuracy_rate) (78 / 100))"
    by (auto simp add: getPredictionMetrics_def)
  then show ?thesis
    using parseFloat_or_text_finite by simp
qed

lemma roiFromSummaries_no_predictions:
  assumes "totalPredictions pd = Fin 0"
    and "accuracyRate pd = Fin acc"
    and "avgResolutionMinutes cd = Fin m"
  shows "totalConflictsAvoided (roiFromSummaries cd pd ed tf) = Fin 0 \<and>
         timesSaved (roiFromSummaries cd pd ed tf) = Fin 0"
  using assms by (simp add: roiFromSummaries_def js_or_def Let_def)


lemma calculateCICDSavings_text_ops:
  "avg_cycle_time ed = NumericText a \<Longrightarrow>
   calculateCICDSavings ed = js_mul (js_max (Fin 0) (js_sub (Fin 24) (Fin a))) (Fin 4)"
  by (simp add: calculateCICDSavings_def Let_def)

text \<open>
  A source that delivered the average as the JavaScript number 0 (a mocked pool, or a
  driver configured to parse numerics) would see it replaced by the baseline.
\<close>

lemma calculateCICDSavings_number_zero:
  "calculateCICDSavings (engineering_avg_row (Number 0)) = Fin 0"
  by (simp add: calculateCICDSavings_number engineering_avg_row_def)

section \<open>Properties of the ROI calculation\<close>



text \<open>
  C2, as the code has it. For every \<open>timeframeDays\<close>, positive or not, a call fails
  exactly when one of its fetches fails: the conflict fetch, or else the prediction
  fetch, or else the engineering fetch, each attempted only after the earlier ones have
  succeeded; the failure is the error of that fetch, unchanged. There is no other
  failure, and no rejection of an input.
\<close>

theorem calculateROI_failure_modes:
  "calculateROI p rid tf = Inl e \<longleftrightarrow>
     conflictQuery p rid (windowStart p tf) = Inl e \<or>
     (\<not> isl (conflictQuery p rid (windowStart p tf)) \<and>
        predictionQuery p rid (windowStart p tf) = Inl e) \<or>
     (\<not> isl (conflictQuery p rid (windowStart p tf)) \<and>
      \<not> isl (predictionQuery p rid (windowStart p tf)) \<and>
        engineeringQuery p rid (windowStart p tf) = Inl e)"
  by (simp only: calculateROI_Inl getConflictMetrics_Inl getPredictionMetrics_Inl
        getEngineeringMetrics_Inl getConflictMetrics_isl getPredictionMetrics_isl)

text \<open>
  The claim C2 itself fails: with a time frame of 0 or of -30 days and fetches that
  succeed, the call returns a report (the projection is infinite, or negative) instead of
  rejecting its input; and with a time frame of 0 the conflict fetch is attempted, since
  its error is what the call fails with.
\<close>

theorem nonpositive_timeframe_counterexample:
  "calculateROI scenarioA 1 (Fin 0) =
     Inr \<lparr> totalConflictsAvoided = Fin 80, avgConflictResolutionTime = Fin 45,
           timesSaved = Fin 60, costSavings = Fin 4500, developerHourlyCost = Fin 75,
           preventedBuildFailures = Fin 0, cicdTimeSaved = Fin 0, totalROI = Fin 4500,
           projectedAnnualSavings = PosInf \<rparr> \<and>
   calculateROI scenarioA 1 (Fin (- 30)) =
     Inr \<lparr> totalConflictsAvoided = Fin 80, avgConflictResolutionTime = Fin 45,
           timesSaved = Fin 60, costSavings = Fin 4500, developerHourlyCost = Fin 75,
           preventedBuildFailures = Fin 0, cicdTimeSaved = Fin 0, totalROI = Fin 4500,
           projectedAnnualSavings = Fin (- 54750) \<rparr> \<and>
   calculateROI unavailable 1 (Fin 0) = Inl ''connection refused''"
  by (simp add: scenarioA_def unavailable_def pool_defs roi_defs trunc_numeral trunc_zero)


text \<open>
  C3. For every average cycle time \<open>a\<close> that the engineering fetch delivers (a numeric
  text: the driver's rendering of \<open>AVG\<close> over the \<open>INTEGER\<close> column), the report's
  \<open>cicdTimeSaved\<close> is \<open>max(0, 24 - a) * 4\<close> in the program's arithmetic: \<open>(24 - a) * 4\<close>
  when \<open>a\<close> is at most 24, and 0 when it is at least 24. In particular it is 96 for
  \<open>a = 0\<close>: the text of 0 is truthy, so no baseline takes its place.
\<close>

theorem cicd_savings_formula:
  assumes "calculateROI p rid tf = Inr r"
    and "engineeringQuery p rid (windowStart p tf) = Inr rows"
    and "first_field rows avg_cycle_time = NumericText a"
  shows "cicdTimeSaved r = js_mul (js_max (Fin 0) (js_sub (Fin 24) (Fin a))) (Fin 4) \<and>
         (a = 0 \<longrightarrow> cicdTimeSaved r = Fin 96) \<and>
         (a \<le> 24 \<longrightarrow> cicdTimeSaved r = js_mul (js_sub (Fin 24) (Fin a)) (Fin 4)) \<and>
         (24 \<le> a \<longrightarrow> cicdTimeSaved r = Fin 0)"
proof -
  obtain ed where ed: "avg_cycle_time ed = NumericText a"
      "cicdTimeSaved r = calculateCICDSavings ed"
    using calculateROI_cicdTimeSaved [OF assms(1,2)] assms(3) by auto
  have ops: "cicdTimeSaved r = js_mul (js_max (Fin 0) (js_sub (Fin 24) (Fin a))) (Fin 4)"
    using ed calculateCICDSavings_text_ops [of ed a] by simp
  have "cicdTimeSaved r = Fin (max 0 (24 - a) * 4)"
    using ed calculateCICDSavings_text [of ed a] by simp
  then have "(a = 0 \<longrightarrow> cicdTimeSaved r = Fin 96) \<and>
      (a \<le> 24 \<longrightarrow> cicdTimeSaved r = js_mul (js_sub (Fin 24) (Fin a)) (Fin 4)) \<and>
      (24 \<le> a \<longrightarrow> cicdTimeSaved r = Fin 0)"
    by (simp add: js_sub_def max_def)
  with ops show ?thesis
    by blast
qed

theorem cicd_savings_formula_witness:
  "(\<exists>r. calculateROI (roi_source (NumericText 45) 100 (NumericText (8 / 10)) (NumericText 0))
          1 (Fin 30) = Inr r \<and> cicdTimeSaved r = Fin 96) \<and>
   (\<exists>r. calculateROI (roi_source (NumericText 45) 100 (NumericText (8 / 10)) (NumericText 12))
          1 (Fin 30) = Inr r \<and> cicdTimeSaved r = Fin 48) \<and>
   (\<exists>r. calculateROI (roi_source (NumericText 45) 100 (NumericText (8 / 10)) (NumericText 30))
          1 (Fin 30) = Inr r \<and> cicdTimeSaved r = Fin 0)"
proof -
  let ?src = "\<lambda>a. roi_source (NumericText 45) 100 (NumericText (8 / 10)) (NumericText a)"
  have q: "engineeringQuery (?src a) 1 (windowStart (?src a) (Fin 30)) =
             Inr [engineering_avg_row (NumericText a)]" for a
    by (simp add: roi_source_def source_of_simps)
  have f: "first_field [engineering_avg_row (NumericText a)] avg_cycle_time = NumericText a"
    for a
    by (simp add: engineering_avg_row_def)
  obtain r1 where r1: "calculateROI (?src 0) 1 (Fin 30) = Inr r1"
    using calculateROI_roi_source by blast
  obtain r2 where r2: "calculateROI (?src 12) 1 (Fin 30) = Inr r2"
    using calculateROI_roi_source by blast
  obtain r3 where r3: "calculateROI (?src 30) 1 (Fin 30) = Inr r3"
    using calculateROI_roi_source by blast
  have "cicdTimeSaved r1 = Fin 96"
    using cicd_savings_formula [OF r1 q f] by (simp add: js_sub_def)
  moreover have "cicdTimeSaved r2 = Fin 48"
    using cicd_savings_formula [OF r2 q f] by (simp add: js_sub_def)
  moreover have "cicdTimeSaved r3 = Fin 0"
    using cicd_savings_formula [OF r3 q f] by (simp add: js_sub_def)
  ultimately show ?thesis
    using r1 r2 r3 by simp
qed

text \<open>
  C4, as the code has it. A non-zero average resolution time delivered by the conflict
  fetch is reported unchanged, and \<open>timesSaved\<close> is the number of conflicts avoided times
  that average, divided by 60. An average of 0 (as a text or as a number) is replaced by
  the default of 45 minutes, as a \<open>NULL\<close> or absent one is.
\<close>

theorem resolution_time_used:
  assumes "calculateROI p rid tf = Inr r"
    and "conflictQuery p rid (windowStart p tf) = Inr rows"
    and "v = first_field rows avg_resolution_minutes"
  shows "((v = NumericText a \<or> v = Number a) \<and> a \<noteq> 0 \<longrightarrow>
            avgConflictResolutionTime r = Fin a \<and>
            timesSaved r = js_div (js_mul (totalConflictsAvoided r) (Fin a)) (Fin 60)) \<and>
         (v = NumericText 0 \<or> v = Number 0 \<or> v = Null \<longrightarrow>
            avgConflictResolutionTime r = Fin 45 \<and>
            timesSaved r = js_div (js_mul (totalConflictsAvoided r) (Fin 45)) (Fin 60))"
  using calculateROI_resolution [OF assms(1,2)] assms(3)
  by (auto simp add: parseFloat_or_text js_or_def)

theorem resolution_time_used_witness:
  "(\<exists>r. calculateROI (roi_source (NumericText 30) 100 (NumericText (8 / 10)) (NumericText 24))
          1 (Fin 30) = Inr r \<and>
        avgConflictResolutionTime r = Fin 30 \<and>
        timesSaved r = js_div (js_mul (totalConflictsAvoided r) (Fin 30)) (Fin 60)) \<and>
   (\<exists>r. calculateROI (roi_source Null 100 (NumericText (8 / 10)) (NumericText 24))
          1 (Fin 30) = Inr r \<and>
        avgConflictResolutionTime r = Fin 45 \<and>
        timesSaved r = js_div (js_mul (totalConflictsAvoided r) (Fin 45)) (Fin 60))"
proof -
  let ?src = "\<lambda>v. roi_source v 100 (NumericText (8 / 10)) (NumericText 24)"
  have q: "conflictQuery (?src v) 1 (windowStart (?src v) (Fin 30)) = Inr [conflicts_row v]"
    for v
    by (simp add: roi_source_def source_of_simps)
  have f: "v = first_field [conflicts_row v] avg_resolution_minutes" for v
    by (simp add: conflicts_row_def)
  obtain r1 where r1: "calculateROI (?src (NumericText 30)) 1 (Fin 30) = Inr r1"
    using calculateROI_roi_source by blast
  obtain r2 where r2: "calculateROI (?src Null) 1 (Fin 30) = Inr r2"
    using calculateROI_roi_source by blast
  have "avgConflictResolutionTime r1 = Fin 30 \<and>
        timesSaved r1 = js_div (js_mul (totalConflictsAvoided r1) (Fin 30)) (Fin 60)"
    using resolution_time_used [OF r1 q f, of 30] by simp
  moreover have "avgConflictResolutionTime r2 = Fin 45 \<and>
        timesSaved r2 = js_div (js_mul (totalConflictsAvoided r2) (Fin 45)) (Fin 60)"
    using resolution_time_used [OF r2 q f, of 0] by simp
  ultimately show ?thesis
    using r1 r2 by simp
qed

text \<open>
  The claim C4 itself fails for a window with matching rows (12 conflicts) whose average
  resolution time is 0: the report uses 45 minutes and 60 hours saved, as in scenario A.
\<close>

theorem zero_resolution_time_counterexample:
  "calculateROI (roi_source (NumericText 0) 100 (NumericText (8 / 10)) (NumericText 24))
     1 (Fin 30) =
     Inr \<lparr> totalConflictsAvoided = Fin 80, avgConflictResolutionTime = Fin 45,
           timesSaved = Fin 60, costSavings = Fin 4500, developerHourlyCost = Fin 75,
           preventedBuildFailures = Fin 0, cicdTimeSaved = Fin 0, totalROI = Fin 4500,
           projectedAnnualSavings = Fin 54750 \<rparr>"
  by (simp add: pool_defs roi_defs trunc_numeral trunc_zero)

text \<open>
  C5. Whenever the prediction fetch of a call gives \<open>totalPredictions = 0\<close>, the report
  has no conflict avoided and no time saved, whatever accuracy rate and resolution time
  the fetches give.
\<close>

theorem no_predictions_no_savings:
  assumes "calculateROI p rid tf = Inr r"
    and "getPredictionMetrics p rid (windowStart p tf) = Inr pd"
    and "totalPredictions pd = Fin 0"
  shows "totalConflictsAvoided r = Fin 0 \<and> timesSaved r = Fin 0"
proof -
  obtain cd ed where cd: "getConflictMetrics p rid (windowStart p tf) = Inr cd"
    and r: "r = roiFromSummaries cd pd ed tf"
    using assms(1,2) by (auto simp add: calculateROI_Inr)
  obtain acc where acc: "accuracyRate pd = Fin acc"
    using getPredictionMetrics_finite [OF assms(2)] by blast
  obtain m where m: "avgResolutionMinutes cd = Fin m"
    using getConflictMetrics_finite [OF cd] by blast
  show ?thesis
    unfolding r by (rule roiFromSummaries_no_predictions [OF assms(3) acc m])
qed

theorem no_predictions_no_savings_witness:
  "\<exists>r pd. calculateROI (roi_source Null 0 Null Null) 1 (Fin 30) = Inr r \<and>
     getPredictionMetrics (roi_source Null 0 Null Null) 1
       (windowStart (roi_source Null 0 Null Null) (Fin 30)) = Inr pd \<and>
     totalPredictions pd = Fin 0 \<and> accuracyRate pd = Fin (78 / 100) \<and>
     totalConflictsAvoided r = Fin 0 \<and> timesSaved r = Fin 0"
proof -
  let ?src = "roi_source Null 0 Null Null"
  let ?pd = "\<lparr> totalPredictions = Fin 0, accuracyRate = Fin (78 / 100),
               preventedFailures = Fin 0 \<rparr>"
  obtain r where 1: "calculateROI ?src 1 (Fin 30) = Inr r"
    using calculateROI_roi_source by blast
  have 2: "getPredictionMetrics ?src 1 (windowStart ?src (Fin 30)) = Inr ?pd"
    by (simp add: pool_defs getPredictionMetrics_def or_text_def trunc_zero)
  have "totalConflictsAvoided r = Fin 0 \<and> timesSaved r = Fin 0"
    using no_predictions_no_savings [OF 1 2] by simp
  with 1 2 show ?thesis
    by simp
qed


section \<open>Auxiliary facts about bottleneck detection\<close>

lemma js_or_zero: "js_or (Fin a) (Fin 0) = Fin a"
  by (simp add: js_or_def)

lemma row_or0_eq: "row_or0 v = Fin (case v of None \<Rightarrow> 0 | Some a \<Rightarrow> a)"
  by (cases v) (simp_all add: js_or_zero)

lemma reduce_step_Some:
  "reduce_step
     \<lparr> sum_code_review_time = Some (Fin a), sum_cycle_time = Some (Fin b),
       sum_pr_merge_time = Some (Fin c) \<rparr> r =
   \<lparr> sum_code_review_time =
       Some (Fin (a + (case row_code_review_time r of None \<Rightarrow> 0 | Some x \<Rightarrow> x))),
     sum_cycle_time = Some (Fin (b + (case row_cycle_time r of None \<Rightarrow> 0 | Some x \<Rightarrow> x))),
     sum_pr_merge_time =
       Some (Fin (c + (case row_pr_merge_time r of None \<Rightarrow> 0 | Some x \<Rightarrow> x))) \<rparr>"
  by (simp add: reduce_step_def js_or_zero row_or0_eq)

lemma reduce_step_None:
  "reduce_step
     \<lparr> sum_code_review_time = None, sum_cycle_time = None, sum_pr_merge_time = None \<rparr> r =
   \<lparr> sum_code_review_time =
       Some (Fin (case row_code_review_time r of None \<Rightarrow> 0 | Some x \<Rightarrow> x)),
     sum_cycle_time = Some (Fin (case row_cycle_time r of None \<Rightarrow> 0 | Some x \<Rightarrow> x)),
     sum_pr_merge_time = Some (Fin (case row_pr_merge_time r of None \<Rightarrow> 0 | Some x \<Rightarrow> x)) \<rparr>"
  by (simp add: reduce_step_def row_or0_eq)

lemma foldl_reduce_step:
  "foldl reduce_step
     \<lparr> sum_code_review_time = Some (Fin a), sum_cycle_time = Some (Fin b),
       sum_pr_merge_time = Some (Fin c) \<rparr> rows =
   \<lparr> sum_code_review_time =
       Some (Fin (a + (\<Sum>r\<leftarrow>rows. case row_code_review_time r of None \<Rightarrow> 0 | Some x \<Rightarrow> x))),
     sum_cycle_time =
       Some (Fin (b + (\<Sum>r\<leftarrow>rows. case row_cycle_time r of None \<Rightarrow> 0 | Some x \<Rightarrow> x))),
     sum_pr_merge_time =
       Some (Fin (c + (\<Sum>r\<leftarrow>rows. case row_pr_merge_time r of None \<Rightarrow> 0 | Some x \<Rightarrow> x))) \<rparr>"
proof (induction rows arbitrary: a b c)
  case Nil
  show ?case by simp
next
  case (Cons r rows)
  show ?case
    by (simp add: reduce_step_Some Cons.IH add.assoc)
qed

lemma foldl_reduce_step_empty:
  assumes "rows \<noteq> []"
  shows "foldl reduce_step
     \<lparr> sum_code_review_time = None, sum_cycle_time = None, sum_pr_merge_time = None \<rparr> rows =
   \<lparr> sum_code_review_time =
       Some (Fin (\<Sum>r\<leftarrow>rows. case row_code_review_time r of None \<Rightarrow> 0 | Some x \<Rightarrow> x)),
     sum_cycle_time =
       Some (Fin (\<Sum>r\<leftarrow>rows. case row_cycle_time r of None \<Rightarrow> 0 | Some x \<Rightarrow> x)),
     sum_pr_merge_time =
       Some (Fin (\<Sum>r\<leftarrow>rows. case row_pr_merge_time r of None \<Rightarrow> 0 | Some x \<Rightarrow> x)) \<rparr>"
proof -
  obtain r rs where rows: "rows = r # rs"
    using assms by (cases rows) auto
  show ?thesis
    unfolding rows by (simp add: reduce_step_None foldl_reduce_step)
qed

text \<open>On a non-empty window the averages are the arithmetic means, a null counting as 0.\<close>

lemma calculateAverageMetrics_mean:
  assumes "rows \<noteq> []"
  shows "calculateAverageMetrics rows =
     \<lparr> code_review_time =
         Fin ((\<Sum>r\<leftarrow>rows. case row_code_review_time r of None \<Rightarrow> 0 | Some x \<Rightarrow> x)
              / of_nat (length rows)),
       cycle_time =
         Fin ((\<Sum>r\<leftarrow>rows. case row_cycle_time r of None \<Rightarrow> 0 | Some x \<Rightarrow> x)
              / of_nat (length rows)),
       pr_merge_time =
         Fin ((\<Sum>r\<leftarrow>rows. case row_pr_merge_time r of None \<Rightarrow> 0 | Some x \<Rightarrow> x)
              / of_nat (length rows)),
       prsPerWeek = Fin 20, conflictRate = Fin (12 / 100), avgConflictResolution = Fin 45 \<rparr>"
  using assms by (simp add: calculateAverageMetrics_def foldl_reduce_step_empty Let_def)

text \<open>Without the guard the averages of an empty window would be \<open>NaN\<close>, from dividing by zero.\<close>

lemma calculateAverageMetrics_Nil:
  "calculateAverageMetrics [] =
     \<lparr> code_review_time = NaN, cycle_time = NaN, pr_merge_time = NaN,
       prsPerWeek = Fin 20, conflictRate = Fin (12 / 100), avgConflictResolution = Fin 45 \<rparr>"
  "calculateAverageMetrics_divisors [] = [Fin 0, Fin 0, Fin 0]"
  by (simp_all add: calculateAverageMetrics_def calculateAverageMetrics_divisors_def Let_def)

lemma calculateAverageMetrics_rates:
  "prsPerWeek (calculateAverageMetrics rows) = Fin 20"
  "conflictRate (calculateAverageMetrics rows) = Fin (12 / 100)"
  "avgConflictResolution (calculateAverageMetrics rows) = Fin 45"
  by (simp_all add: calculateAverageMetrics_def Let_def)

lemma identifyBottlenecks_Inr:
  "identifyBottlenecks p rid = Inr bs \<longleftrightarrow>
     (\<exists>rows. metricsQuery p rid = Inr rows \<and>
        bs = (if rows = [] then [] else checkBottlenecks (calculateAverageMetrics rows)))"
  by (auto simp add: identifyBottlenecks_def split: sum.splits)

lemma set_checkBottlenecks_divisors:
  "set (checkBottlenecks_divisors a) \<subseteq> {Fin 60, Fin 24}"
  by (auto simp add: checkBottlenecks_divisors_def)

lemma calculateAverageMetrics_divisors_nonzero:
  "rows \<noteq> [] \<Longrightarrow> Fin 0 \<notin> set (calculateAverageMetrics_divisors rows)"
  by (simp add: calculateAverageMetrics_divisors_def Let_def)

lemma checkBottlenecks_types:
  "map type (checkBottlenecks a) =
     (if js_gt (code_review_time a) (Fin 240) then [long_pr_review] else []) @
     (if js_gt (conflictRate a) (Fin (15 / 100)) then [merge_conflicts] else []) @
     (if js_gt (cycle_time a) (Fin 48) then [slow_ci] else [])"
  by (simp add: checkBottlenecks_def Let_def)

lemma checkBottlenecks_review_impact:
  "map impact (filter (\<lambda>b. type b = long_pr_review) (checkBottlenecks a)) =
     (if js_gt (code_review_time a) (Fin 240)
      then [if js_gt (code_review_time a) (Fin 480) then high else medium] else [])"
  by (simp add: checkBottlenecks_def Let_def)

lemma checkBottlenecks_conflict_impact:
  "map impact (filter (\<lambda>b. type b = merge_conflicts) (checkBottlenecks a)) =
     (if js_gt (conflictRate a) (Fin (15 / 100))
      then [if js_gt (conflictRate a) (Fin (25 / 100)) then high else medium] else [])"
  by (simp add: checkBottlenecks_def Let_def)

lemma checkBottlenecks_order:
  "subseq (map type (checkBottlenecks a)) [long_pr_review, merge_conflicts, slow_ci]"
  by (simp add: checkBottlenecks_types)

lemma calculateAverageMetrics_replicate:
  "0 < n \<Longrightarrow>
   calculateAverageMetrics (replicate n (sample_row review cycle)) =
     \<lparr> code_review_time = Fin review, cycle_time = Fin cycle, pr_merge_time = Fin 0,
       prsPerWeek = Fin 20, conflictRate = Fin (12 / 100), avgConflictResolution = Fin 45 \<rparr>"
  by (simp add: calculateAverageMetrics_mean sample_row_def sum_list_replicate)

lemma identifyBottlenecks_scenarioD:
  "identifyBottlenecks scenarioD 1 =
     Inr [\<lparr> type = long_pr_review, impact = high, estimatedCost = Fin 9500,
            recommendation = ''Implement automated code review tools and set review SLAs'' \<rparr>,
          \<lparr> type = slow_ci, impact = high, estimatedCost = Fin 2250,
            recommendation = ''Optimize CI/CD pipeline and implement parallel testing'' \<rparr>]"
  by (simp add: identifyBottlenecks_def scenarioD_def source_of_simps
      calculateAverageMetrics_replicate checkBottlenecks_def DEFAULT_HOURLY_COST_def
      js_sub_def Let_def)

lemma identifyBottlenecks_one_sample:
  "identifyBottlenecks (one_sample review cycle) rid =
     Inr (checkBottlenecks
       \<lparr> code_review_time = Fin review, cycle_time = Fin cycle, pr_merge_time = Fin 0,
         prsPerWeek = Fin 20, conflictRate = Fin (12 / 100), avgConflictResolution = Fin 45 \<rparr>)"
  using calculateAverageMetrics_replicate [of 1 review cycle]
  by (simp add: identifyBottlenecks_def one_sample_def source_of_simps)

lemma review_cost_nonneg:
  assumes "js_gt x (Fin 240)" and "0 < w"
  shows "js_ge (js_mul (js_mul (js_sub (js_div x (Fin 60)) (Fin 2)) DEFAULT_HOURLY_COST) (Fin w))
           (Fin 0)"
proof (cases x)
  case (Fin a)
  with assms(1) have "0 \<le> a / 60 - 2" by simp
  with assms(2) have "0 \<le> (a / 60 - 2) * 75 * w" by simp
  with Fin show ?thesis by (simp add: js_sub_def DEFAULT_HOURLY_COST_def)
qed (use assms in \<open>simp_all add: js_sub_def DEFAULT_HOURLY_COST_def\<close>)

lemma conflict_cost_nonneg:
  assumes "js_gt c (Fin (15 / 100))" and "0 < w" and "0 < m"
  shows "js_ge (js_mul (js_mul (js_mul c (Fin w)) (js_div (Fin m) (Fin 60))) DEFAULT_HOURLY_COST)
           (Fin 0)"
proof (cases c)
  case (Fin a)
  with assms(1) have "0 \<le> a" by simp
  with assms(2,3) have "0 \<le> a * w * (m / 60) * 75" by simp
  with Fin show ?thesis by (simp add: DEFAULT_HOURLY_COST_def)
qed (use assms in \<open>simp_all add: DEFAULT_HOURLY_COST_def\<close>)

lemma cycle_cost_nonneg:
  assumes "js_gt x (Fin 48)" and "0 < w"
  shows "js_ge (js_mul (js_mul (js_div (js_sub x (Fin 24)) (Fin 24)) DEFAULT_HOURLY_COST) (Fin w))
           (Fin 0)"
proof (cases x)
  case (Fin a)
  with assms(1) have "0 \<le> (a - 24) / 24" by simp
  with assms(2) have "0 \<le> (a - 24) / 24 * 75 * w" by simp
  with Fin show ?thesis by (simp add: js_sub_def DEFAULT_HOURLY_COST_def)
qed (use assms in \<open>simp_all add: js_sub_def DEFAULT_HOURLY_COST_def\<close>)

lemma checkBottlenecks_cost_nonneg:
  assumes "prsPerWeek a = Fin w" and "0 < w"
    and "avgConflictResolution a = Fin m" and "0 < m"
    and "b \<in> set (checkBottlenecks a)"
  shows "js_ge (estimatedCost b) (Fin 0)"
  using assms(5) review_cost_nonneg [of "code_review_time a" w, OF _ assms(2)]
    conflict_cost_nonneg [of "conflictRate a" w m, OF _ assms(2,4)]
    cycle_cost_nonneg [of "cycle_time a" w, OF _ assms(2)]
  by (auto simp add: checkBottlenecks_def assms(1,3) Let_def split: if_splits)

section \<open>Properties of bottleneck detection\<close>

text \<open>
  C6 (empty-sample guard). When the query for the samples of a repository returns no row,
  \<^verbatim>\<open>identifyBottlenecks\<close> returns the empty sequence and evaluates no division at all;
  and on no path does a call divide by zero: the sample count is a divisor only of a
  non-empty window.
\<close>

theorem empty_sample_guard:
  "(metricsQuery p rid = Inr [] \<longrightarrow>
      identifyBottlenecks p rid = Inr [] \<and> identifyBottlenecks_divisors p rid = []) \<and>
   Fin 0 \<notin> set (identifyBottlenecks_divisors p rid)"
proof -
  have "Fin 0 \<notin> set (identifyBottlenecks_divisors p rid)"
  proof (cases "metricsQuery p rid")
    case (Inl e)
    then show ?thesis by (simp add: identifyBottlenecks_divisors_def)
  next
    case (Inr rows)
    show ?thesis
    proof (cases "rows = []")
      case True
      with Inr show ?thesis by (simp add: identifyBottlenecks_divisors_def)
    next
      case False
      have "Fin 0 \<notin> set (checkBottlenecks_divisors (calculateAverageMetrics rows))"
        using set_checkBottlenecks_divisors [of "calculateAverageMetrics rows"] by auto
      with Inr False calculateAverageMetrics_divisors_nonzero [OF False] show ?thesis
        by (simp add: identifyBottlenecks_divisors_def)
    qed
  qed
  then show ?thesis
    by (simp add: identifyBottlenecks_def identifyBottlenecks_divisors_def)
qed

theorem empty_sample_guard_witness:
  "metricsQuery scenarioA 1 = Inr [] \<and> identifyBottlenecks scenarioA 1 = Inr [] \<and>
   identifyBottlenecks_divisors scenarioA 1 = []"
proof -
  have "metricsQuery scenarioA 1 = Inr []"
    by (simp add: scenarioA_def roi_source_def source_of_simps)
  then show ?thesis
    using empty_sample_guard [of scenarioA 1] by simp
qed

text \<open>
  C7 (strict thresholds). For every window of samples: a mean review time of exactly 240
  minutes gives no \<open>long_pr_review\<close> finding, a mean cycle time of exactly 48 hours
  gives no \<open>slow_ci\<close> finding, and a mean review time of exactly 480 minutes gives a
  \<open>long_pr_review\<close> finding of impact medium. For every record of averages given to
  the checks: a conflict rate of exactly 0.15 gives no \<open>merge_conflicts\<close> finding, and a
  conflict rate of exactly 0.25 gives one of impact medium.
\<close>

theorem strict_thresholds:
  assumes "identifyBottlenecks p rid = Inr bs"
    and "metricsQuery p rid = Inr rows"
  shows "(code_review_time (calculateAverageMetrics rows) = Fin 240 \<longrightarrow>
            long_pr_review \<notin> set (map type bs)) \<and>
         (cycle_time (calculateAverageMetrics rows) = Fin 48 \<longrightarrow>
            slow_ci \<notin> set (map type bs)) \<and>
         (code_review_time (calculateAverageMetrics rows) = Fin 480 \<longrightarrow>
            map impact (filter (\<lambda>b. type b = long_pr_review) bs) = [medium]) \<and>
         (conflictRate a = Fin (15 / 100) \<longrightarrow>
            merge_conflicts \<notin> set (map type (checkBottlenecks a))) \<and>
         (conflictRate a = Fin (25 / 100) \<longrightarrow>
            map impact (filter (\<lambda>b. type b = merge_conflicts) (checkBottlenecks a)) = [medium])"
proof -
  have bs: "bs = (if rows = [] then [] else checkBottlenecks (calculateAverageMetrics rows))"
    using assms by (auto simp add: identifyBottlenecks_Inr)
  have 1: "code_review_time (calculateAverageMetrics rows) = Fin 240 \<longrightarrow>
      long_pr_review \<notin> set (map type bs)"
    unfolding bs by (simp add: checkBottlenecks_types del: set_map)
  have 2: "cycle_time (calculateAverageMetrics rows) = Fin 48 \<longrightarrow>
      slow_ci \<notin> set (map type bs)"
    unfolding bs by (simp add: checkBottlenecks_types del: set_map)
  have 3: "code_review_time (calculateAverageMetrics rows) = Fin 480 \<longrightarrow>
      map impact (filter (\<lambda>b. type b = long_pr_review) bs) = [medium]"
    unfolding bs
    by (cases "rows = []")
       (simp_all add: checkBottlenecks_review_impact calculateAverageMetrics_Nil)
  have 4: "conflictRate a = Fin (15 / 100) \<longrightarrow>
      merge_conflicts \<notin> set (map type (checkBottlenecks a))"
    by (simp add: checkBottlenecks_types del: set_map)
  have 5: "conflictRate a = Fin (25 / 100) \<longrightarrow>
      map impact (filter (\<lambda>b. type b = merge_conflicts) (checkBottlenecks a)) = [medium]"
    by (simp add: checkBottlenecks_conflict_impact)
  from 1 2 3 4 5 show ?thesis by blast
qed

theorem strict_thresholds_witness:
  "identifyBottlenecks (one_sample 240 48) 1 = Inr [] \<and>
   code_review_time (calculateAverageMetrics [sample_row 240 48]) = Fin 240 \<and>
   cycle_time (calculateAverageMetrics [sample_row 240 48]) = Fin 48 \<and>
   long_pr_review \<notin> set (map type []) \<and> slow_ci \<notin> set (map type []) \<and>
   code_review_time (calculateAverageMetrics [sample_row 480 48]) = Fin 480 \<and>
   (\<exists>bs. identifyBottlenecks (one_sample 480 48) 1 = Inr bs \<and>
      map impact (filter (\<lambda>b. type b = long_pr_review) bs) = [medium]) \<and>
   merge_conflicts \<notin> set (map type (checkBottlenecks
      ((calculateAverageMetrics [sample_row 240 48]) \<lparr> conflictRate := Fin (15 / 100) \<rparr>))) \<and>
   map impact (filter (\<lambda>b. type b = merge_conflicts) (checkBottlenecks
      ((calculateAverageMetrics [sample_row 240 48]) \<lparr> conflictRate := Fin (25 / 100) \<rparr>))) =
     [medium]"
proof -
  let ?a15 = "(calculateAverageMetrics [sample_row 240 48]) \<lparr> conflictRate := Fin (15 / 100) \<rparr>"
  let ?a25 = "(calculateAverageMetrics [sample_row 240 48]) \<lparr> conflictRate := Fin (25 / 100) \<rparr>"
  have avg: "calculateAverageMetrics [sample_row review cycle] =
     \<lparr> code_review_time = Fin review, cycle_time = Fin cycle, pr_merge_time = Fin 0,
       prsPerWeek = Fin 20, conflictRate = Fin (12 / 100), avgConflictResolution = Fin 45 \<rparr>"
    for review cycle
    using calculateAverageMetrics_replicate [of 1 review cycle] by simp
  have q: "metricsQuery (one_sample review cycle) 1 = Inr [sample_row review cycle]"
    for review cycle
    by (simp add: one_sample_def source_of_simps)
  have r1: "identifyBottlenecks (one_sample 240 48) 1 = Inr []"
    by (simp add: identifyBottlenecks_one_sample checkBottlenecks_def Let_def)
  obtain bs where r2: "identifyBottlenecks (one_sample 480 48) 1 = Inr bs"
    by (simp add: identifyBottlenecks_one_sample)
  have "map impact (filter (\<lambda>b. type b = long_pr_review) bs) = [medium]"
    using strict_thresholds [OF r2 q] by (simp add: avg)
  moreover have "long_pr_review \<notin> set (map type []) \<and> slow_ci \<notin> set (map type [])"
    using strict_thresholds [OF r1 q] by (simp add: avg)
  moreover have "merge_conflicts \<notin> set (map type (checkBottlenecks ?a15))"
    using strict_thresholds [OF r1 q, of ?a15] by simp
  moreover have
    "map impact (filter (\<lambda>b. type b = merge_conflicts) (checkBottlenecks ?a25)) = [medium]"
    using strict_thresholds [OF r1 q, of ?a25] by simp
  ultimately show ?thesis
    using r1 r2 by (simp add: avg)
qed

text \<open>
  C8, as the code has it. The findings of a call are always in the order of the checks:
  their kinds form a subsequence of \<open>long_pr_review, merge_conflicts, slow_ci\<close>. For
  thirty samples averaging a review time of 500 minutes and a cycle time of 60 hours the
  call returns exactly two findings, \<open>long_pr_review\<close> then \<open>slow_ci\<close>, both of impact
  high: the conflict rate is the constant 0.12 of \<^verbatim>\<open>calculateAverageMetrics\<close>, not an
  input. The checks themselves, given these averages with a conflict rate of 0.30, yield
  \<open>long_pr_review, merge_conflicts, slow_ci\<close>, all of impact high. The order is not by cost
  or impact: a review time of 300 minutes and a cycle time of 120 hours give a medium
  finding of cost 4500 before a high finding of cost 6000.
\<close>

theorem findings_in_rule_order:
  "(identifyBottlenecks p rid = Inr bs \<longrightarrow>
      subseq (map type bs) [long_pr_review, merge_conflicts, slow_ci]) \<and>
   identifyBottlenecks scenarioD 1 =
     Inr [\<lparr> type = long_pr_review, impact = high, estimatedCost = Fin 9500,
            recommendation = ''Implement automated code review tools and set review SLAs'' \<rparr>,
          \<lparr> type = slow_ci, impact = high, estimatedCost = Fin 2250,
            recommendation = ''Optimize CI/CD pipeline and implement parallel testing'' \<rparr>] \<and>
   map (\<lambda>b. (type b, impact b))
     (checkBottlenecks ((calculateAverageMetrics (replicate 30 (sample_row 500 60)))
        \<lparr> conflictRate := Fin (30 / 100) \<rparr>)) =
     [(long_pr_review, high), (merge_conflicts, high), (slow_ci, high)] \<and>
   identifyBottlenecks (one_sample 300 120) 1 =
     Inr [\<lparr> type = long_pr_review, impact = medium, estimatedCost = Fin 4500,
            recommendation = ''Implement automated code review tools and set review SLAs'' \<rparr>,
          \<lparr> type = slow_ci, impact = high, estimatedCost = Fin 6000,
            recommendation = ''Optimize CI/CD pipeline and implement parallel testing'' \<rparr>]"
proof -
  have "subseq (map type bs) [long_pr_review, merge_conflicts, slow_ci]"
    if "identifyBottlenecks p rid = Inr bs"
  proof -
    from that obtain rows where
      "bs = (if rows = [] then [] else checkBottlenecks (calculateAverageMetrics rows))"
      by (auto simp add: identifyBottlenecks_Inr)
    then show ?thesis
      using checkBottlenecks_order [of "calculateAverageMetrics rows"] by simp
  qed
  moreover have "map (\<lambda>b. (type b, impact b))
     (checkBottlenecks ((calculateAverageMetrics (replicate 30 (sample_row 500 60)))
        \<lparr> conflictRate := Fin (30 / 100) \<rparr>)) =
     [(long_pr_review, high), (merge_conflicts, high), (slow_ci, high)]"
    by (simp add: calculateAverageMetrics_replicate checkBottlenecks_def Let_def)
  moreover have "identifyBottlenecks (one_sample 300 120) 1 =
     Inr [\<lparr> type = long_pr_review, impact = medium, estimatedCost = Fin 4500,
            recommendation = ''Implement automated code review tools and set review SLAs'' \<rparr>,
          \<lparr> type = slow_ci, impact = high, estimatedCost = Fin 6000,
            recommendation = ''Optimize CI/CD pipeline and implement parallel testing'' \<rparr>]"
    by (simp add: identifyBottlenecks_one_sample checkBottlenecks_def DEFAULT_HOURLY_COST_def
        js_sub_def Let_def)
  ultimately show ?thesis
    using identifyBottlenecks_scenarioD by blast
qed

theorem findings_in_rule_order_witness:
  "\<exists>bs. identifyBottlenecks scenarioD 1 = Inr bs \<and>
     map type bs = [long_pr_review, slow_ci] \<and>
     subseq (map type bs) [long_pr_review, merge_conflicts, slow_ci]"
proof -
  obtain bs where bs: "identifyBottlenecks scenarioD 1 = Inr bs"
    using identifyBottlenecks_scenarioD by blast
  have "subseq (map type bs) [long_pr_review, merge_conflicts, slow_ci]"
    using findings_in_rule_order [of scenarioD 1 bs] bs by blast
  moreover have "map type bs = [long_pr_review, slow_ci]"
    using bs by (auto simp add: identifyBottlenecks_scenarioD)
  ultimately show ?thesis
    using bs by (intro conjI exI [of _ bs]) simp_all
qed

text \<open>
  The claim C8 itself fails: for the window of scenario D the call succeeds with two
  findings, not three; there is no \<open>merge_conflicts\<close> finding.
\<close>

theorem scenario_D_counterexample:
  "\<not> isl (identifyBottlenecks scenarioD 1) \<and>
   map type (projr (identifyBottlenecks scenarioD 1)) = [long_pr_review, slow_ci]"
  by (simp add: identifyBottlenecks_scenarioD)

text \<open>
  C9. Every finding that \<^verbatim>\<open>identifyBottlenecks\<close> returns has an estimated cost that is
  at least 0. More generally the three checks, given any averages with a positive number
  of pull requests per week and a positive conflict resolution time, and any conflict
  rate, only produce findings of non-negative cost: each guard makes the factors of its
  cost non-negative.
\<close>

theorem estimated_cost_nonnegative:
  "(identifyBottlenecks p rid = Inr bs \<longrightarrow> (\<forall>b\<in>set bs. js_ge (estimatedCost b) (Fin 0))) \<and>
   (prsPerWeek a = Fin w \<and> 0 < w \<and> avgConflictResolution a = Fin m \<and> 0 < m \<longrightarrow>
      (\<forall>b\<in>set (checkBottlenecks a). js_ge (estimatedCost b) (Fin 0)))"
proof -
  have "js_ge (estimatedCost b) (Fin 0)"
    if "identifyBottlenecks p rid = Inr bs" and "b \<in> set bs" for b
  proof -
    from that(1) obtain rows where
      bs: "bs = (if rows = [] then [] else checkBottlenecks (calculateAverageMetrics rows))"
      by (auto simp add: identifyBottlenecks_Inr)
    with that(2) have "b \<in> set (checkBottlenecks (calculateAverageMetrics rows))"
      by (simp split: if_splits)
    then show ?thesis
      by (rule checkBottlenecks_cost_nonneg [OF calculateAverageMetrics_rates(1) _
            calculateAverageMetrics_rates(3), rotated 2]) simp_all
  qed
  then show ?thesis
    using checkBottlenecks_cost_nonneg [of a w m] by blast
qed

theorem estimated_cost_nonnegative_witness:
  "(\<exists>bs. identifyBottlenecks scenarioD 1 = Inr bs \<and> map estimatedCost bs = [Fin 9500, Fin 2250] \<and>
      list_all (\<lambda>b. js_ge (estimatedCost b) (Fin 0)) bs) \<and>
   map estimatedCost (checkBottlenecks ((calculateAverageMetrics (replicate 30 (sample_row 500 60)))
        \<lparr> conflictRate := Fin (30 / 100) \<rparr>)) = [Fin 9500, Fin (675 / 2), Fin 2250] \<and>
   list_all (\<lambda>b. js_ge (estimatedCost b) (Fin 0))
     (checkBottlenecks ((calculateAverageMetrics (replicate 30 (sample_row 500 60)))
        \<lparr> conflictRate := Fin (30 / 100) \<rparr>))"
proof -
  let ?a = "(calculateAverageMetrics (replicate 30 (sample_row 500 60)))
        \<lparr> conflictRate := Fin (30 / 100) \<rparr>"
  obtain bs where bs: "identifyBottlenecks scenarioD 1 = Inr bs"
    using identifyBottlenecks_scenarioD by blast
  have a: "prsPerWeek ?a = Fin 20 \<and> (0::rat) < 20 \<and> avgConflictResolution ?a = Fin 45 \<and>
      (0::rat) < 45"
    by (simp add: calculateAverageMetrics_rates)
  have "list_all (\<lambda>b. js_ge (estimatedCost b) (Fin 0)) bs"
    using estimated_cost_nonnegative [of scenarioD 1 bs ?a 20 45] bs
    by (simp add: list_all_iff)
  moreover have "list_all (\<lambda>b. js_ge (estimatedCost b) (Fin 0)) (checkBottlenecks ?a)"
    using estimated_cost_nonnegative [of scenarioD 1 bs ?a 20 45] a
    by (simp only: list_all_iff) blast
  moreover have "map estimatedCost bs = [Fin 9500, Fin 2250]"
    using bs by (auto simp add: identifyBottlenecks_scenarioD)
  moreover have "map estimatedCost (checkBottlenecks ?a) = [Fin 9500, Fin (675 / 2), Fin 2250]"
    by (simp add: calculateAverageMetrics_replicate checkBottlenecks_def DEFAULT_HOURLY_COST_def
        js_sub_def Let_def)
  ultimately show ?thesis
    using bs by (intro conjI exI [of _ bs]) simp_all
qed

text \<open>
  C10. \<^verbatim>\<open>identifyBottlenecks\<close> never returns a finding of kind \<open>merge_conflicts\<close>: the
  conflict rate that the check reads is the constant 0.12 for every window, which is not
  greater than 0.15.
\<close>

theorem merge_conflicts_never_reported:
  assumes "identifyBottlenecks p rid = Inr bs"
  shows "merge_conflicts \<notin> set (map type bs) \<and>
         (\<forall>rows. conflictRate (calculateAverageMetrics rows) = Fin (12 / 100)) \<and>
         \<not> js_gt (Fin (12 / 100)) (Fin (15 / 100))"
proof -
  from assms obtain rows where
    bs: "bs = (if rows = [] then [] else checkBottlenecks (calculateAverageMetrics rows))"
    by (auto simp add: identifyBottlenecks_Inr)
  have "merge_conflicts \<notin> set (map type bs)"
    unfolding bs by (simp add: checkBottlenecks_types calculateAverageMetrics_rates del: set_map)
  then show ?thesis
    by (simp add: calculateAverageMetrics_rates)
qed

theorem merge_conflicts_never_reported_witness:
  "\<exists>bs. identifyBottlenecks scenarioD 1 = Inr bs \<and> length bs = 2 \<and>
     merge_conflicts \<notin> set (map type bs)"
proof -
  obtain bs where bs: "identifyBottlenecks scenarioD 1 = Inr bs"
    using identifyBottlenecks_scenarioD by blast
  have "merge_conflicts \<notin> set (map type bs)"
    using merge_conflicts_never_reported [OF bs] by blast
  moreover have "length bs = 2"
    using bs by (auto simp add: identifyBottlenecks_scenarioD)
  ultimately show ?thesis
    using bs by (intro conjI exI [of _ bs]) simp_all
qed

end
